theory Spec2Isabelle
  imports Main "HOL-Library.Word"
begin

section \<open>Platform types\<close>

text \<open>
  The launcher is Windows code. A \<open>DWORD\<close> is an unsigned 32-bit integer, an
  \<open>HRESULT\<close> a 32-bit status code, a \<open>HANDLE\<close> and an \<open>HWND\<close> are pointer-sized
  (WSL exists on 64-bit Windows only), a \<open>wchar_t\<close> is a 16-bit code unit, a
  \<open>std::wstring\<close> a sequence of them and a \<open>std::filesystem::path\<close> a wide string in
  native format.
\<close>

type_synonym DWORD = "32 word"
type_synonym HRESULT = "32 word"
type_synonym HANDLE = "64 word"
type_synonym HWND = "64 word"
type_synonym wchar_t = "16 word"
type_synonym wstring = "wchar_t list"
type_synonym path = "wchar_t list"

text \<open>The wide string literal \<open>L"..."\<close> of an ASCII literal.\<close>

definition L :: "string \<Rightarrow> wstring" where
  "L s = map (\<lambda>c. of_nat (of_char c)) s"

text \<open>
  \<open>std::wstring::c_str()\<close> gives a pointer to the characters; a callee that takes a
  \<open>const wchar_t*\<close> reads them up to the first NUL.
\<close>

definition c_str :: "wstring \<Rightarrow> wstring" where
  "c_str s = takeWhile (\<lambda>c. c \<noteq> 0) s"

text \<open>Constants of the Windows headers (\<open>winerror.h\<close>, \<open>winbase.h\<close>).\<close>

definition E_NOTIMPL :: HRESULT where
  "E_NOTIMPL = 0x80004001"

definition E_FAIL :: HRESULT where
  "E_FAIL = 0x80004005"

definition INFINITE :: DWORD where
  "INFINITE = 0xFFFFFFFF"

definition WAIT_TIMEOUT :: DWORD where
  "WAIT_TIMEOUT = 258"

definition WAIT_FAILED :: DWORD where
  "WAIT_FAILED = 0xFFFFFFFF"

definition nullptr :: "64 word" where
  "nullptr = 0"

section \<open>Effects: the world and the record of calls\<close>

text \<open>
  The controllers do their work through static functions of a policy class given as a
  template argument. Such a function reads and changes the operating system, so in the
  model it takes the world \<open>'w\<close> and returns its result with the new world. The model
  also keeps, beside the world, the list of the calls made so far (oldest first): this is
  what lets a theorem say that a handler did or did not call the provider.
\<close>

record ('w, 'c) sys =
  world :: 'w
  calls :: "'c list"

definition invoke :: "'c \<Rightarrow> ('w \<Rightarrow> 'a \<times> 'w) \<Rightarrow> ('w, 'c) sys \<Rightarrow> 'a \<times> ('w, 'c) sys" where
  "invoke c f s = (case f (world s) of (r, w') \<Rightarrow> (r, \<lparr>world = w', calls = calls s @ [c]\<rparr>))"

definition invoke_void :: "'c \<Rightarrow> ('w \<Rightarrow> 'w) \<Rightarrow> ('w, 'c) sys \<Rightarrow> ('w, 'c) sys" where
  "invoke_void c f s = \<lparr>world = f (world s), calls = calls s @ [c]\<rparr>"

section \<open>The installer controller (installer_controller.h)\<close>

datatype Mode = Gui | Text

datatype Event =
    InteractiveInstall
  | AutoInstall path
  | Reconfig
  | StartInstaller
  | BlockOnInstaller

text \<open>
  \<open>States::StateVariant\<close>. \<open>PreparedTui\<close> and \<open>PreparedGui\<close> are structs with the
  fields \<open>cli\<close> and \<open>mode\<close>; \<open>Ready\<close> holds \<open>oobeProcess\<close> and \<open>timeout\<close>;
  \<open>UpstreamDefaultInstall\<close> holds \<open>hr\<close>.
\<close>

datatype State =
    Closed
  | AutoInstalling wstring
  | PreparedGui wstring Mode
  | PreparedTui wstring Mode
  | Ready HANDLE DWORD
  | UpstreamDefaultInstall HRESULT
  | Success

text \<open>
  The calls a handler can make: the static members of \<open>Policy\<close>, and
  \<open>std::filesystem::exists\<close> and \<open>wprintf\<close> of the standard library.
\<close>

datatype Call =
    Call_is_oobe_available
  | Call_exists path
  | Call_wprintf wstring
  | Call_copy_file_into_distro path wstring
  | Call_prepare_prefill_info
  | Call_must_run_in_text_mode
  | Call_do_launch_sync wstring
  | Call_start_installer_async wstring
  | Call_consume_process HANDLE DWORD
  | Call_handle_exit_status

text \<open>
  The template parameter \<open>Policy\<close>: its static constant \<open>OobeCommand\<close> and the static
  functions the handlers call.
\<close>

record 'w Policy =
  OobeCommand :: wstring
  is_oobe_available :: "'w \<Rightarrow> bool \<times> 'w"
  copy_file_into_distro :: "path \<Rightarrow> wstring \<Rightarrow> 'w \<Rightarrow> bool \<times> 'w"
  prepare_prefill_info :: "'w \<Rightarrow> wstring \<times> 'w"
  must_run_in_text_mode :: "'w \<Rightarrow> bool \<times> 'w"
  do_launch_sync :: "wstring \<Rightarrow> 'w \<Rightarrow> DWORD \<times> 'w"
  start_installer_async :: "wstring \<Rightarrow> 'w \<Rightarrow> HANDLE \<times> 'w"
  consume_process :: "HANDLE \<Rightarrow> DWORD \<Rightarrow> 'w \<Rightarrow> DWORD \<times> 'w"
  handle_exit_status :: "'w \<Rightarrow> 'w"

text \<open>
  The two functions of \<open>std::filesystem\<close> that \<open>Closed\<close> uses: \<open>exists\<close> asks the
  world whether a path names a file and leaves the world as it is, \<open>path::filename\<close>
  (followed by \<open>wstring()\<close>) is a function of the path alone. The model covers the runs in
  which the library and the provider return normally.
\<close>

record 'w filesystem =
  fs_exists :: "path \<Rightarrow> 'w \<Rightarrow> bool"
  path_filename :: "path \<Rightarrow> wstring"

definition wprintf :: "wstring \<Rightarrow> ('w, Call) sys \<Rightarrow> ('w, Call) sys" where
  "wprintf msg s = invoke_void (Call_wprintf msg) (\<lambda>w. w) s"

definition answers_not_found_msg :: wstring where
  "answers_not_found_msg = L ''Answers file not found. Cannot proceed with auto installation\<newline>''"

definition copy_failed_msg :: wstring where
  "copy_failed_msg = L (''Failed to copy the answers file into the distro file system. Cannot proceed with ''
                        @ ''auto installation\<newline>'')"

subsection \<open>\<open>States::Closed\<close>\<close>

definition Closed_on_event_AutoInstall ::
  "'w Policy \<Rightarrow> 'w filesystem \<Rightarrow> path \<Rightarrow> ('w, Call) sys \<Rightarrow> State \<times> ('w, Call) sys" where
  "Closed_on_event_AutoInstall P F answers_file s0 =
     (case invoke Call_is_oobe_available (is_oobe_available P) s0 of (available, s1) \<Rightarrow>
      if \<not> available then (UpstreamDefaultInstall E_NOTIMPL, s1)
      else case invoke (Call_exists answers_file) (\<lambda>w. (fs_exists F answers_file w, w)) s1 of (found, s2) \<Rightarrow>
        if \<not> found then (UpstreamDefaultInstall E_FAIL, wprintf answers_not_found_msg s2)
        else
          let source = answers_file;
              destination = L ''/var/tmp/'' @ path_filename F source
          in case invoke (Call_copy_file_into_distro source destination)
                    (copy_file_into_distro P source destination) s2 of (copied, s3) \<Rightarrow>
            if \<not> copied then (UpstreamDefaultInstall E_FAIL, wprintf copy_failed_msg s3)
            else
              let commandLine = OobeCommand P @ L '' --text '' @ L ''--autoinstall '' @ destination
              in (AutoInstalling commandLine, s3))"

definition Closed_on_event_InteractiveInstall ::
  "'w Policy \<Rightarrow> ('w, Call) sys \<Rightarrow> State \<times> ('w, Call) sys" where
  "Closed_on_event_InteractiveInstall P s0 =
     (case invoke Call_is_oobe_available (is_oobe_available P) s0 of (available, s1) \<Rightarrow>
      if \<not> available then (UpstreamDefaultInstall E_NOTIMPL, s1)
      else case invoke Call_prepare_prefill_info (prepare_prefill_info P) s1 of (prefill, s2) \<Rightarrow>
        let commandLine = OobeCommand P @ prefill
        in case invoke Call_must_run_in_text_mode (must_run_in_text_mode P) s2 of (text_mode, s3) \<Rightarrow>
          if text_mode then (PreparedTui (commandLine @ L '' --text'') Text, s3)
          else (PreparedGui commandLine Gui, s3))"

definition Closed_on_event_Reconfig ::
  "'w Policy \<Rightarrow> ('w, Call) sys \<Rightarrow> State \<times> ('w, Call) sys" where
  "Closed_on_event_Reconfig P s0 =
     (case invoke Call_is_oobe_available (is_oobe_available P) s0 of (available, s1) \<Rightarrow>
      if \<not> available then (UpstreamDefaultInstall E_NOTIMPL, s1)
      else case invoke Call_must_run_in_text_mode (must_run_in_text_mode P) s1 of (text_mode, s2) \<Rightarrow>
        let commandLine = (if text_mode then OobeCommand P @ L '' --text'' else OobeCommand P)
        in case invoke (Call_do_launch_sync (c_str commandLine))
                  (do_launch_sync P (c_str commandLine)) s2 of
             (exitCode, s3) \<Rightarrow>
          if exitCode \<noteq> 0 then (UpstreamDefaultInstall E_FAIL, s3)
          else (Success, s3))"

subsection \<open>\<open>States::AutoInstalling\<close>\<close>

definition AutoInstalling_on_event_BlockOnInstaller ::
  "'w Policy \<Rightarrow> wstring \<Rightarrow> ('w, Call) sys \<Rightarrow> State \<times> ('w, Call) sys" where
  "AutoInstalling_on_event_BlockOnInstaller P cli s0 =
     (case invoke (Call_do_launch_sync (c_str cli)) (do_launch_sync P (c_str cli)) s0 of
        (exitCode, s1) \<Rightarrow>
      if exitCode \<noteq> 0 then (UpstreamDefaultInstall E_FAIL, s1)
      else (Success, invoke_void Call_handle_exit_status (handle_exit_status P) s1))"

subsection \<open>\<open>InstallerController::start_installer_async\<close>, \<open>States::PreparedTui\<close>, \<open>States::PreparedGui\<close>\<close>

definition controller_start_installer_async ::
  "'w Policy \<Rightarrow> Mode \<Rightarrow> wstring \<Rightarrow> ('w, Call) sys \<Rightarrow> State \<times> ('w, Call) sys" where
  "controller_start_installer_async P mode command s0 =
     (let timeoutMs = (if mode = Text then INFINITE else (1000 * 60 * 4 :: DWORD))
      in case invoke (Call_start_installer_async command) (start_installer_async P command) s0 of
           (oobeProcess, s1) \<Rightarrow>
        if oobeProcess = nullptr then (UpstreamDefaultInstall E_FAIL, s1)
        else (Ready oobeProcess timeoutMs, s1))"

definition PreparedTui_on_event_StartInstaller ::
  "'w Policy \<Rightarrow> wstring \<Rightarrow> Mode \<Rightarrow> ('w, Call) sys \<Rightarrow> State \<times> ('w, Call) sys" where
  "PreparedTui_on_event_StartInstaller P cli mode s =
     controller_start_installer_async P mode (c_str cli) s"

definition PreparedGui_on_event_StartInstaller ::
  "'w Policy \<Rightarrow> wstring \<Rightarrow> Mode \<Rightarrow> ('w, Call) sys \<Rightarrow> State \<times> ('w, Call) sys" where
  "PreparedGui_on_event_StartInstaller P cli mode s =
     controller_start_installer_async P mode (c_str cli) s"

subsection \<open>\<open>States::Ready\<close>\<close>

definition Ready_on_event_BlockOnInstaller ::
  "'w Policy \<Rightarrow> HANDLE \<Rightarrow> DWORD \<Rightarrow> ('w, Call) sys \<Rightarrow> State \<times> ('w, Call) sys" where
  "Ready_on_event_BlockOnInstaller P oobeProcess timeout s0 =
     (case invoke (Call_consume_process oobeProcess timeout) (consume_process P oobeProcess timeout) s0 of
        (exitCode, s1) \<Rightarrow>
      if exitCode \<noteq> 0 then (UpstreamDefaultInstall E_FAIL, s1)
      else (Success, invoke_void Call_handle_exit_status (handle_exit_status P) s1))"

subsection \<open>The handlers each state declares\<close>

text \<open>
  Which \<open>on_event\<close> overloads the state structs declare: three in \<open>Closed\<close>, one each in
  \<open>AutoInstalling\<close>, \<open>PreparedTui\<close>, \<open>PreparedGui\<close> and \<open>Ready\<close>, none in
  \<open>UpstreamDefaultInstall\<close> and \<open>Success\<close>.
\<close>

definition has_on_event :: "State \<Rightarrow> Event \<Rightarrow> bool" where
  "has_on_event state event =
     (case state of
        Closed \<Rightarrow>
          (case event of AutoInstall _ \<Rightarrow> True | InteractiveInstall \<Rightarrow> True | Reconfig \<Rightarrow> True
           | _ \<Rightarrow> False)
      | AutoInstalling _ \<Rightarrow> (case event of BlockOnInstaller \<Rightarrow> True | _ \<Rightarrow> False)
      | PreparedTui _ _ \<Rightarrow> (case event of StartInstaller \<Rightarrow> True | _ \<Rightarrow> False)
      | PreparedGui _ _ \<Rightarrow> (case event of StartInstaller \<Rightarrow> True | _ \<Rightarrow> False)
      | Ready _ _ \<Rightarrow> (case event of BlockOnInstaller \<Rightarrow> True | _ \<Rightarrow> False)
      | UpstreamDefaultInstall _ \<Rightarrow> False
      | Success \<Rightarrow> False)"

section \<open>The state-machine engine\<close>

text \<open>
  Modelled from the spec: the engine \<open>internal::state_machine\<close> of state_machine.h, which
  is not among the sources; the controller only declares \<open>sm\<close> of that type and the tests
  call \<open>sm.addEvent\<close> and read \<open>has_value()\<close> of its result. After the spec (4.1), the
  engine looks the event up in the current state: where the state has a handler that
  accepts the event, the handler's result becomes the new state and is returned; where it
  has none, the state stays and nothing is returned. A controller gives its handlers as
  \<open>on_event\<close>, whose result is \<open>None\<close> for a rejected event, beside the world after the
  calls made.
\<close>

definition addEvent ::
  "('s \<Rightarrow> 'e \<Rightarrow> 'x \<Rightarrow> 's option \<times> 'x) \<Rightarrow> 'e \<Rightarrow> 's \<times> 'x \<Rightarrow> 's option \<times> ('s \<times> 'x)" where
  "addEvent on_event event c =
     (case on_event (fst c) event (snd c) of
        (None, x') \<Rightarrow> (None, (fst c, x'))
      | (Some new_state, x') \<Rightarrow> (Some new_state, (new_state, x')))"

text \<open>The events of a list, submitted one after the other.\<close>

fun addEvents :: "('s \<Rightarrow> 'e \<Rightarrow> 'x \<Rightarrow> 's option \<times> 'x) \<Rightarrow> 'e list \<Rightarrow> 's \<times> 'x \<Rightarrow> 's \<times> 'x" where
  "addEvents on_event [] c = c"
| "addEvents on_event (e # es) c = addEvents on_event es (snd (addEvent on_event e c))"

definition accepted :: "State \<times> 'x \<Rightarrow> State option \<times> 'x" where
  "accepted r = (Some (fst r), snd r)"

text \<open>
  The installer controller's handlers as the engine sees them: the overload of the
  current state for the event's type where the state declares one.
\<close>

definition Installer_on_event ::
  "'w Policy \<Rightarrow> 'w filesystem \<Rightarrow> State \<Rightarrow> Event \<Rightarrow> ('w, Call) sys \<Rightarrow> State option \<times> ('w, Call) sys" where
  "Installer_on_event P F state event x =
     (case state of
        Closed \<Rightarrow>
          (case event of
             AutoInstall answers_file \<Rightarrow> accepted (Closed_on_event_AutoInstall P F answers_file x)
           | InteractiveInstall \<Rightarrow> accepted (Closed_on_event_InteractiveInstall P x)
           | Reconfig \<Rightarrow> accepted (Closed_on_event_Reconfig P x)
           | _ \<Rightarrow> (None, x))
      | AutoInstalling cli \<Rightarrow>
          (case event of
             BlockOnInstaller \<Rightarrow> accepted (AutoInstalling_on_event_BlockOnInstaller P cli x)
           | _ \<Rightarrow> (None, x))
      | PreparedTui cli mode \<Rightarrow>
          (case event of
             StartInstaller \<Rightarrow> accepted (PreparedTui_on_event_StartInstaller P cli mode x)
           | _ \<Rightarrow> (None, x))
      | PreparedGui cli mode \<Rightarrow>
          (case event of
             StartInstaller \<Rightarrow> accepted (PreparedGui_on_event_StartInstaller P cli mode x)
           | _ \<Rightarrow> (None, x))
      | Ready oobeProcess timeout \<Rightarrow>
          (case event of
             BlockOnInstaller \<Rightarrow> accepted (Ready_on_event_BlockOnInstaller P oobeProcess timeout x)
           | _ \<Rightarrow> (None, x))
      | UpstreamDefaultInstall _ \<Rightarrow> (None, x)
      | Success \<Rightarrow> (None, x))"

section \<open>The splash controller\<close>

text \<open>
  Modelled from the spec: the events and the states of splash_controller.h, which is not
  among the sources; SplashControllerTests.cpp is, and names them. After the spec (4.2)
  the events are \<open>Run{target}\<close>, \<open>ToggleVisibility\<close>, \<open>PlaceBehind{otherWindow}\<close> and
  \<open>Close\<close>, the states \<open>Idle\<close>, \<open>Visible\<close>, \<open>Hidden\<close> and \<open>ShouldBeClosed\<close>.
  \<open>Visible\<close> and \<open>Hidden\<close> carry the window they show or hide; \<open>Run\<close> carries the
  path of the executable the controller was built with.
\<close>

datatype SplashEvent =
    Run path
  | ToggleVisibility
  | PlaceBehind HWND
  | Close

datatype SplashState =
    Idle
  | Visible HWND
  | Hidden HWND
  | ShouldBeClosed

datatype SplashCall =
    Call_do_create_process path
  | Call_do_find_window_by_thread_id DWORD
  | Call_do_show_window HWND
  | Call_do_hide_window HWND
  | Call_do_place_behind HWND HWND
  | Call_do_forcebly_close HWND
  | Call_do_gracefully_close HWND

text \<open>
  The strategy, with the functions and signatures of the fakes in the tests.
  \<open>do_create_process\<close> fills its \<open>PROCESS_INFORMATION\<close> argument; the model returns,
  beside the flag, the thread id in it.
\<close>

record 'w Strategy =
  do_create_process :: "path \<Rightarrow> 'w \<Rightarrow> (bool \<times> DWORD) \<times> 'w"
  do_find_window_by_thread_id :: "DWORD \<Rightarrow> 'w \<Rightarrow> HWND \<times> 'w"
  do_show_window :: "HWND \<Rightarrow> 'w \<Rightarrow> bool \<times> 'w"
  do_hide_window :: "HWND \<Rightarrow> 'w \<Rightarrow> bool \<times> 'w"
  do_place_behind :: "HWND \<Rightarrow> HWND \<Rightarrow> 'w \<Rightarrow> bool \<times> 'w"
  do_forcebly_close :: "HWND \<Rightarrow> 'w \<Rightarrow> 'w"
  do_gracefully_close :: "HWND \<Rightarrow> 'w \<Rightarrow> 'w"

text \<open>
  Modelled from the spec: \<open>Idle + Run\<close> of splash_controller.h, which is not among the
  sources. After the spec (4.2): ask the provider to create the splash process; on
  failure, reject (the state stays \<open>Idle\<close>). On success, ask it to locate the process's
  window by thread id; on failure to find the window, reject. On success, show the window
  and become \<open>Visible\<close>. The tests assert the state after a failed \<open>Run\<close>, not the
  \<open>has_value()\<close> of its result.
\<close>

definition Idle_on_event_Run ::
  "'w Strategy \<Rightarrow> path \<Rightarrow> ('w, SplashCall) sys \<Rightarrow> SplashState option \<times> ('w, SplashCall) sys" where
  "Idle_on_event_Run S target x0 =
     (case invoke (Call_do_create_process target) (do_create_process S target) x0 of
        ((created, threadId), x1) \<Rightarrow>
      if \<not> created then (None, x1)
      else case invoke (Call_do_find_window_by_thread_id threadId)
                  (do_find_window_by_thread_id S threadId) x1 of (window, x2) \<Rightarrow>
        if window = nullptr then (None, x2)
        else case invoke (Call_do_show_window window) (do_show_window S window) x2 of
               (_, x3) \<Rightarrow> (Some (Visible window), x3))"

text \<open>
  Modelled from the spec: the other handlers of splash_controller.h, which is not among
  the sources. After the spec (4.2): \<open>Visible + ToggleVisibility\<close> hides the window and
  becomes \<open>Hidden\<close>; \<open>Hidden + ToggleVisibility\<close> shows it and becomes \<open>Visible\<close>;
  \<open>PlaceBehind{w}\<close> from either reorders the window behind \<open>w\<close> and becomes
  \<open>Visible\<close>; \<open>Close\<close> from either attempts a graceful close and becomes
  \<open>ShouldBeClosed\<close> unconditionally; all other pairs are rejected.
\<close>

definition Splash_on_event ::
  "'w Strategy \<Rightarrow> SplashState \<Rightarrow> SplashEvent \<Rightarrow> ('w, SplashCall) sys
     \<Rightarrow> SplashState option \<times> ('w, SplashCall) sys" where
  "Splash_on_event S state event x =
     (case state of
        Idle \<Rightarrow>
          (case event of
             Run target \<Rightarrow> Idle_on_event_Run S target x
           | _ \<Rightarrow> (None, x))
      | Visible window \<Rightarrow>
          (case event of
             ToggleVisibility \<Rightarrow>
               (Some (Hidden window),
                snd (invoke (Call_do_hide_window window) (do_hide_window S window) x))
           | PlaceBehind w \<Rightarrow>
               (Some (Visible window),
                snd (invoke (Call_do_place_behind w window) (do_place_behind S w window) x))
           | Close \<Rightarrow>
               (Some ShouldBeClosed,
                invoke_void (Call_do_gracefully_close window) (do_gracefully_close S window) x)
           | Run _ \<Rightarrow> (None, x))
      | Hidden window \<Rightarrow>
          (case event of
             ToggleVisibility \<Rightarrow>
               (Some (Visible window),
                snd (invoke (Call_do_show_window window) (do_show_window S window) x))
           | PlaceBehind w \<Rightarrow>
               (Some (Visible window),
                snd (invoke (Call_do_place_behind w window) (do_place_behind S w window) x))
           | Close \<Rightarrow>
               (Some ShouldBeClosed,
                invoke_void (Call_do_gracefully_close window) (do_gracefully_close S window) x)
           | Run _ \<Rightarrow> (None, x))
      | ShouldBeClosed \<Rightarrow> (None, x))"

text \<open>
  Modelled from the spec: the handlers splash_controller.h declares, which is not among
  the sources. After the spec (4.2) these are \<open>Run\<close> in \<open>Idle\<close> and
  \<open>ToggleVisibility\<close>, \<open>PlaceBehind\<close> and \<open>Close\<close> in \<open>Visible\<close> and in \<open>Hidden\<close>.
\<close>

definition Splash_has_on_event :: "SplashState \<Rightarrow> SplashEvent \<Rightarrow> bool" where
  "Splash_has_on_event state event =
     (case state of
        Idle \<Rightarrow> (case event of Run _ \<Rightarrow> True | _ \<Rightarrow> False)
      | Visible _ \<Rightarrow> (case event of Run _ \<Rightarrow> False | _ \<Rightarrow> True)
      | Hidden _ \<Rightarrow> (case event of Run _ \<Rightarrow> False | _ \<Rightarrow> True)
      | ShouldBeClosed \<Rightarrow> False)"

subsection \<open>The fake strategies of SplashControllerTests.cpp\<close>

text \<open>
  The fakes have no state: their world is \<open>unit\<close>. They leave the \<open>PROCESS_INFORMATION\<close>
  as the caller passed it, which the model takes as zeroed. \<open>NothingWorksStrategy\<close> and
  \<open>CantFindWindowStrategy\<close> leave out the functions their tests never reach; the record
  needs them, and gets the ones of \<open>EverythingWorksStrategy\<close>, whose
  \<open>do_find_window_by_thread_id\<close> returns \<open>GetConsoleWindow()\<close>, here the argument
  \<open>console\<close>.
\<close>

definition EverythingWorksStrategy :: "HWND \<Rightarrow> unit Strategy" where
  "EverythingWorksStrategy console =
     \<lparr> do_create_process = (\<lambda>exePath w. ((True, 0), w)),
       do_find_window_by_thread_id = (\<lambda>threadId w. (console, w)),
       do_show_window = (\<lambda>window w. (True, w)),
       do_hide_window = (\<lambda>window w. (True, w)),
       do_place_behind = (\<lambda>toBeFront toBeBehind w. (True, w)),
       do_forcebly_close = (\<lambda>window w. w),
       do_gracefully_close = (\<lambda>window w. w) \<rparr>"

definition NothingWorksStrategy :: "unit Strategy" where
  "NothingWorksStrategy =
     (EverythingWorksStrategy nullptr)
       \<lparr> do_create_process := (\<lambda>exePath w. ((False, 0), w)),
         do_find_window_by_thread_id := (\<lambda>threadId w. (nullptr, w)) \<rparr>"

definition CantFindWindowStrategy :: "unit Strategy" where
  "CantFindWindowStrategy =
     (EverythingWorksStrategy nullptr)
       \<lparr> do_create_process := (\<lambda>exePath w. ((True, 0), w)),
         do_find_window_by_thread_id := (\<lambda>threadId w. (nullptr, w)) \<rparr>"

definition sys0 :: "(unit, 'c) sys" where
  "sys0 = \<lparr>world = (), calls = []\<rparr>"

section \<open>Reading the record of calls\<close>

text \<open>The calls made between an earlier and a later moment.\<close>

definition new_calls :: "('w, 'c) sys \<Rightarrow> ('w, 'c) sys \<Rightarrow> 'c list" where
  "new_calls s s' = drop (length (calls s)) (calls s')"

text \<open>
  The calls that block the calling thread until a process ends: a synchronous launch and
  the wait on a process handle.
\<close>

fun blocking :: "Call \<Rightarrow> bool" where
  "blocking (Call_do_launch_sync _) = True"
| "blocking (Call_consume_process _ _) = True"
| "blocking _ = False"

section \<open>Providers for running the model\<close>

text \<open>
  A provider without state whose answers are fixed by its arguments, in the manner of the
  fake strategies of the tests, and a file system in which every path exists or none
  does, with the file name taken after the last separator.
\<close>

definition TestPolicy :: "bool \<Rightarrow> bool \<Rightarrow> bool \<Rightarrow> DWORD \<Rightarrow> HANDLE \<Rightarrow> unit Policy" where
  "TestPolicy available copied text_mode exitCode process =
     \<lparr> OobeCommand = L ''oobe'',
       is_oobe_available = (\<lambda>w. (available, w)),
       copy_file_into_distro = (\<lambda>source destination w. (copied, w)),
       prepare_prefill_info = (\<lambda>w. (L '' --prefill=u'', w)),
       must_run_in_text_mode = (\<lambda>w. (text_mode, w)),
       do_launch_sync = (\<lambda>cli w. (exitCode, w)),
       start_installer_async = (\<lambda>cli w. (process, w)),
       consume_process = (\<lambda>process timeout w. (exitCode, w)),
       handle_exit_status = (\<lambda>w. w) \<rparr>"

text \<open>
  A provider whose world is the table of the processes it has started: for each open
  handle, the milliseconds the process still runs and the code it exits with.
  \<open>expires\<close> says that a wait on a handle runs out before the process ends. This
  provider's \<open>consume_process\<close> closes the handle, and returns \<open>WAIT_TIMEOUT\<close> when the
  wait expires and the exit code otherwise.
\<close>

type_synonym processes = "HANDLE \<Rightarrow> (nat \<times> DWORD) option"

definition expires :: "HANDLE \<Rightarrow> DWORD \<Rightarrow> processes \<Rightarrow> bool" where
  "expires h timeout w =
     (case w h of None \<Rightarrow> False | Some (ms, code) \<Rightarrow> timeout \<noteq> INFINITE \<and> unat timeout < ms)"

definition WaitingPolicy :: "processes Policy" where
  "WaitingPolicy =
     \<lparr> OobeCommand = L ''oobe'',
       is_oobe_available = (\<lambda>w. (True, w)),
       copy_file_into_distro = (\<lambda>source destination w. (True, w)),
       prepare_prefill_info = (\<lambda>w. ([], w)),
       must_run_in_text_mode = (\<lambda>w. (False, w)),
       do_launch_sync = (\<lambda>cli w. (0, w)),
       start_installer_async = (\<lambda>cli w. (nullptr, w)),
       consume_process = (\<lambda>h timeout w.
         case w h of
           None \<Rightarrow> (WAIT_FAILED, w)
         | Some (ms, code) \<Rightarrow> (if expires h timeout w then WAIT_TIMEOUT else code, w(h := None))),
       handle_exit_status = (\<lambda>w. w) \<rparr>"

text \<open>One open handle, 5, of a process that runs five more minutes and exits with 0.\<close>

definition slow_installer :: "(processes, Call) sys" where
  "slow_installer = \<lparr>world = (\<lambda>h. None)(5 := Some (300000, 0)), calls = []\<rparr>"

definition TestFilesystem :: "bool \<Rightarrow> unit filesystem" where
  "TestFilesystem found =
     \<lparr> fs_exists = (\<lambda>p w. found),
       path_filename = (\<lambda>p. rev (takeWhile (\<lambda>c. c \<noteq> 47 \<and> c \<noteq> 92) (rev p))) \<rparr>"

text \<open>
  What a test reads after each event it submits: \<open>transition.has_value()\<close> and the
  current state.
\<close>

fun outcomes ::
  "('s \<Rightarrow> 'e \<Rightarrow> 'x \<Rightarrow> 's option \<times> 'x) \<Rightarrow> 'e list \<Rightarrow> 's \<times> 'x \<Rightarrow> (bool \<times> 's) list" where
  "outcomes on_event [] c = []"
| "outcomes on_event (e # es) c =
     (fst (addEvent on_event e c) \<noteq> None, fst (snd (addEvent on_event e c)))
       # outcomes on_event es (snd (addEvent on_event e c))"

section \<open>Auxiliary facts\<close>

lemma INFINITE_greatest: "(t :: DWORD) \<le> INFINITE"
proof -
  have eq: "INFINITE = - 1"
    by (simp add: INFINITE_def)
  show ?thesis
    unfolding eq by (rule word_n1_ge)
qed

lemma addEvent_rejected:
  "on_event (fst c) e (snd c) = (None, snd c) \<Longrightarrow> addEvent on_event e c = (None, c)"
  by (simp add: addEvent_def)

lemma addEvents_all_rejected:
  assumes "\<And>e y. on_event st e y = (None, y)"
  shows "addEvents on_event es (st, x) = (st, x)"
  by (induction es) (simp_all add: addEvent_def assms)

lemma Installer_Success_rejects: "Installer_on_event P F Success e y = (None, y)"
  by (simp add: Installer_on_event_def)

lemma Installer_UpstreamDefaultInstall_rejects:
  "Installer_on_event P F (UpstreamDefaultInstall hr) e y = (None, y)"
  by (simp add: Installer_on_event_def)

lemma Splash_ShouldBeClosed_rejects: "Splash_on_event S ShouldBeClosed e y = (None, y)"
  by (simp add: Splash_on_event_def)

lemma Splash_Run_outside_Idle:
  "st \<noteq> Idle \<Longrightarrow> Splash_on_event S st (Run target) y = (None, y)"
  by (cases st) (simp_all add: Splash_on_event_def)

lemma Splash_leaves_Idle_for_good:
  "fst c \<noteq> Idle \<Longrightarrow> fst (snd (addEvent (Splash_on_event S) e c)) \<noteq> Idle"
  by (cases "fst c"; cases e) (simp_all add: addEvent_def Splash_on_event_def)

lemma Splash_never_back_to_Idle:
  "fst c \<noteq> Idle \<Longrightarrow> fst (addEvents (Splash_on_event S) es c) \<noteq> Idle"
proof (induction es arbitrary: c)
  case Nil
  then show ?case by simp
next
  case (Cons e es)
  from Cons.prems have "fst (snd (addEvent (Splash_on_event S) e c)) \<noteq> Idle"
    by (rule Splash_leaves_Idle_for_good)
  then show ?case
    by (simp add: Cons.IH)
qed

lemma c_str_without_NUL: "0 \<notin> set s \<Longrightarrow> c_str s = s"
  by (auto simp add: c_str_def)

lemma c_str_L_text: "0 \<notin> set s \<Longrightarrow> c_str (s @ L '' --text'') = s @ L '' --text''"
  by (rule c_str_without_NUL) (simp add: L_def)

lemma WaitingPolicy_reports_expiry:
  assumes "expires h timeout w"
  shows "fst (consume_process WaitingPolicy h timeout w) \<noteq> 0"
proof (cases "w h")
  case None
  with assms show ?thesis
    by (simp add: expires_def)
next
  case (Some p)
  with assms show ?thesis
    by (simp add: WaitingPolicy_def WAIT_TIMEOUT_def case_prod_beta)
qed

lemma TestPolicy_simps:
  "OobeCommand (TestPolicy a c t e h) = L ''oobe''"
  "is_oobe_available (TestPolicy a c t e h) w = (a, w)"
  "copy_file_into_distro (TestPolicy a c t e h) src dst w = (c, w)"
  "prepare_prefill_info (TestPolicy a c t e h) w = (L '' --prefill=u'', w)"
  "must_run_in_text_mode (TestPolicy a c t e h) w = (t, w)"
  "do_launch_sync (TestPolicy a c t e h) cli w = (e, w)"
  "start_installer_async (TestPolicy a c t e h) cli w = (h, w)"
  "consume_process (TestPolicy a c t e h) p ms w = (e, w)"
  "handle_exit_status (TestPolicy a c t e h) w = w"
  by (simp_all add: TestPolicy_def)

lemma Strategy_simps:
  "do_create_process NothingWorksStrategy p w = ((False, 0), w)"
  "do_create_process CantFindWindowStrategy p w = ((True, 0), w)"
  "do_find_window_by_thread_id CantFindWindowStrategy t w = (nullptr, w)"
  "do_create_process (EverythingWorksStrategy c) p w = ((True, 0), w)"
  "do_find_window_by_thread_id (EverythingWorksStrategy c) t w = (c, w)"
  by (simp_all add: NothingWorksStrategy_def CantFindWindowStrategy_def EverythingWorksStrategy_def)

section \<open>The tests of SplashControllerTests.cpp, run on the model\<close>

text \<open>
  Each test submits its events to a controller that starts in \<open>Idle\<close>; the lemma lists
  what the test asserts. The tests run in a console, so \<open>GetConsoleWindow()\<close> is not
  null there.
\<close>

lemma LaunchFailedShouldStayIdle:
  "map snd (outcomes (Splash_on_event NothingWorksStrategy) [Run target] (Idle, sys0)) = [Idle]"
  by (simp add: addEvent_def Splash_on_event_def Idle_on_event_Run_def invoke_def
      NothingWorksStrategy_def EverythingWorksStrategy_def sys0_def)

lemma FailedToFindWindowShouldStayIdle:
  "map snd (outcomes (Splash_on_event CantFindWindowStrategy) [Run target, Close] (Idle, sys0))
     = [Idle, Idle]"
  by (simp add: addEvent_def Splash_on_event_def Idle_on_event_Run_def invoke_def
      CantFindWindowStrategy_def EverythingWorksStrategy_def sys0_def)

lemma AHappySequenceOfEvents:
  assumes "console \<noteq> nullptr"
  shows "outcomes (Splash_on_event (EverythingWorksStrategy console))
           [Run target, ToggleVisibility, ToggleVisibility, ToggleVisibility, PlaceBehind console, Close]
           (Idle, sys0)
         = [(True, Visible console), (True, Hidden console), (True, Visible console),
            (True, Hidden console), (True, Visible console), (True, ShouldBeClosed)]"
  using assms
  by (simp add: addEvent_def Splash_on_event_def Idle_on_event_Run_def invoke_def invoke_void_def
      EverythingWorksStrategy_def sys0_def)

lemma OnlyIdleStateAcceptsRunEvent:
  assumes "console \<noteq> nullptr"
  shows "outcomes (Splash_on_event (EverythingWorksStrategy console))
           [Run target, Run target, ToggleVisibility, Run target, Close, Run target]
           (Idle, sys0)
         = [(True, Visible console), (False, Visible console), (True, Hidden console),
            (False, Hidden console), (True, ShouldBeClosed), (False, ShouldBeClosed)]"
  using assms
  by (simp add: addEvent_def Splash_on_event_def Idle_on_event_Run_def invoke_def invoke_void_def
      EverythingWorksStrategy_def sys0_def)

lemma MustCloseOnlyOnce:
  assumes "console \<noteq> nullptr"
  shows "outcomes (Splash_on_event (EverythingWorksStrategy console))
           [Run target, Close, ToggleVisibility, Close, Run target, Close]
           (Idle, sys0)
         = [(True, Visible console), (True, ShouldBeClosed), (False, ShouldBeClosed),
            (False, ShouldBeClosed), (False, ShouldBeClosed), (False, ShouldBeClosed)]"
  using assms
  by (simp add: addEvent_def Splash_on_event_def Idle_on_event_Run_def invoke_def invoke_void_def
      EverythingWorksStrategy_def sys0_def)

section \<open>The claims\<close>

subsection \<open>Events without a handler\<close>

text \<open>
  Claim C1. For every pair of a current state and an event for which no handler is
  declared, submitting the event is rejected: the engine returns no transition, and the
  state, the world and the record of calls are what they were. This holds for every state
  of the installer controller and of the splash controller, reachable or not; the result
  is a value in every case, there is no error to raise.
\<close>

theorem unhandled_event_rejected:
  "(\<not> has_on_event state event \<longrightarrow>
      addEvent (Installer_on_event P F) event (state, x) = (None, (state, x)))
   \<and> (\<not> Splash_has_on_event splash_state splash_event \<longrightarrow>
      addEvent (Splash_on_event S) splash_event (splash_state, y) = (None, (splash_state, y)))"
proof -
  have "addEvent (Installer_on_event P F) event (state, x) = (None, (state, x))"
    if "\<not> has_on_event state event"
    using that
    by (cases state; cases event)
      (simp_all add: has_on_event_def addEvent_def Installer_on_event_def)
  moreover
  have "addEvent (Splash_on_event S) splash_event (splash_state, y) = (None, (splash_state, y))"
    if "\<not> Splash_has_on_event splash_state splash_event"
    using that
    by (cases splash_state; cases splash_event)
      (simp_all add: Splash_has_on_event_def addEvent_def Splash_on_event_def)
  ultimately show ?thesis
    by blast
qed

theorem unhandled_event_rejected_witness:
  "\<not> has_on_event (Ready 5 INFINITE) Reconfig
   \<and> addEvent (Installer_on_event (TestPolicy True True False 0 5) (TestFilesystem True))
        Reconfig (Ready 5 INFINITE, sys0) = (None, (Ready 5 INFINITE, sys0))
   \<and> \<not> Splash_has_on_event Idle Close
   \<and> addEvent (Splash_on_event CantFindWindowStrategy) Close (Idle, sys0) = (None, (Idle, sys0))"
proof -
  have h: "\<not> has_on_event (Ready 5 INFINITE) Reconfig" "\<not> Splash_has_on_event Idle Close"
    by (simp_all add: has_on_event_def Splash_has_on_event_def)
  with unhandled_event_rejected [where state = "Ready 5 INFINITE" and event = Reconfig
      and splash_state = Idle and splash_event = Close
      and P = "TestPolicy True True False 0 5" and F = "TestFilesystem True" and x = sys0
      and S = CantFindWindowStrategy and y = sys0]
  show ?thesis
    by simp
qed

subsection \<open>Closing and finishing happen once\<close>

text \<open>
  Claim C2. Closing and finishing are one-shot. In the splash controller a \<open>Close\<close> that
  is accepted leaves the state \<open>ShouldBeClosed\<close>, and in \<open>ShouldBeClosed\<close> every event
  (\<open>Close\<close> again, \<open>ToggleVisibility\<close>, \<open>PlaceBehind\<close>, \<open>Run\<close>), and every sequence
  of events, is rejected with the state still \<open>ShouldBeClosed\<close>. In the installer
  controller, in \<open>Success\<close> and in \<open>UpstreamDefaultInstall\<close> each of the five events,
  and every sequence of them, is rejected and the state is unchanged.
\<close>

theorem close_and_finish_one_shot:
  "(fst (addEvent (Splash_on_event S) Close (splash_state, y)) \<noteq> None \<longrightarrow>
      fst (snd (addEvent (Splash_on_event S) Close (splash_state, y))) = ShouldBeClosed)
   \<and> addEvent (Splash_on_event S) splash_event (ShouldBeClosed, y) = (None, (ShouldBeClosed, y))
   \<and> addEvents (Splash_on_event S) splash_events (ShouldBeClosed, y) = (ShouldBeClosed, y)
   \<and> addEvent (Installer_on_event P F) event (Success, x) = (None, (Success, x))
   \<and> addEvent (Installer_on_event P F) event (UpstreamDefaultInstall hr, x)
       = (None, (UpstreamDefaultInstall hr, x))
   \<and> addEvents (Installer_on_event P F) events (Success, x) = (Success, x)
   \<and> addEvents (Installer_on_event P F) events (UpstreamDefaultInstall hr, x)
       = (UpstreamDefaultInstall hr, x)"
proof -
  have "fst (snd (addEvent (Splash_on_event S) Close (splash_state, y))) = ShouldBeClosed"
    if "fst (addEvent (Splash_on_event S) Close (splash_state, y)) \<noteq> None"
    using that
    by (cases splash_state) (simp_all add: addEvent_def Splash_on_event_def)
  moreover
  have "addEvent (Splash_on_event S) splash_event (ShouldBeClosed, y) = (None, (ShouldBeClosed, y))"
    by (simp add: addEvent_rejected Splash_ShouldBeClosed_rejects)
  moreover
  have "addEvents (Splash_on_event S) splash_events (ShouldBeClosed, y) = (ShouldBeClosed, y)"
    by (rule addEvents_all_rejected) (rule Splash_ShouldBeClosed_rejects)
  moreover
  have "addEvent (Installer_on_event P F) event (Success, x) = (None, (Success, x))"
    by (simp add: addEvent_rejected Installer_Success_rejects)
  moreover
  have "addEvent (Installer_on_event P F) event (UpstreamDefaultInstall hr, x)
          = (None, (UpstreamDefaultInstall hr, x))"
    by (simp add: addEvent_rejected Installer_UpstreamDefaultInstall_rejects)
  moreover
  have "addEvents (Installer_on_event P F) events (Success, x) = (Success, x)"
    by (rule addEvents_all_rejected) (rule Installer_Success_rejects)
  moreover
  have "addEvents (Installer_on_event P F) events (UpstreamDefaultInstall hr, x)
          = (UpstreamDefaultInstall hr, x)"
    by (rule addEvents_all_rejected) (rule Installer_UpstreamDefaultInstall_rejects)
  ultimately show ?thesis
    by blast
qed

text \<open>
  The witness is the test \<open>MustCloseOnlyOnce\<close>: with a strategy for which everything
  works, \<open>Close\<close> in \<open>Visible\<close> is accepted and gives \<open>ShouldBeClosed\<close>.
\<close>

theorem close_and_finish_one_shot_witness:
  "fst (addEvent (Splash_on_event (EverythingWorksStrategy 7)) Close (Visible 7, sys0)) \<noteq> None
   \<and> fst (snd (addEvent (Splash_on_event (EverythingWorksStrategy 7)) Close (Visible 7, sys0)))
       = ShouldBeClosed"
proof -
  have h: "fst (addEvent (Splash_on_event (EverythingWorksStrategy 7)) Close (Visible 7, sys0)) \<noteq> None"
    by (simp add: addEvent_def Splash_on_event_def)
  with close_and_finish_one_shot [where S = "EverythingWorksStrategy 7" and splash_state = "Visible 7"
      and y = sys0]
  show ?thesis
    by blast
qed

subsection \<open>\<open>AutoInstall\<close> in \<open>Closed\<close>\<close>

text \<open>
  Claim C3, amended. Applying \<open>AutoInstall\<close> in \<open>Closed\<close> with an answers file that
  does not exist gives \<open>UpstreamDefaultInstall\<close> for every provider. The reason it
  carries is the generic failure \<open>E_FAIL\<close> when the provider reports the installer
  available, whatever its other capabilities, and \<open>E_NOTIMPL\<close> when it reports the
  installer unavailable: the handler asks for the installer before it looks for the file.
\<close>

theorem AutoInstall_missing_answers_file:
  assumes "\<not> fs_exists F f (snd (is_oobe_available P (world s)))"
  shows "fst (Closed_on_event_AutoInstall P F f s) =
           UpstreamDefaultInstall (if fst (is_oobe_available P (world s)) then E_FAIL else E_NOTIMPL)"
  using assms
  by (simp add: Closed_on_event_AutoInstall_def invoke_def invoke_void_def wprintf_def
      case_prod_beta Let_def)

theorem AutoInstall_missing_answers_file_witness:
  "\<not> fs_exists (TestFilesystem False) (L ''/no/such/file'')
        (snd (is_oobe_available (TestPolicy True True False 0 1) (world sys0)))
   \<and> fst (Closed_on_event_AutoInstall (TestPolicy True True False 0 1) (TestFilesystem False)
            (L ''/no/such/file'') sys0) = UpstreamDefaultInstall E_FAIL
   \<and> \<not> fs_exists (TestFilesystem False) (L ''/no/such/file'')
        (snd (is_oobe_available (TestPolicy False True False 0 1) (world sys0)))
   \<and> fst (Closed_on_event_AutoInstall (TestPolicy False True False 0 1) (TestFilesystem False)
            (L ''/no/such/file'') sys0) = UpstreamDefaultInstall E_NOTIMPL"
proof -
  have missing: "\<not> fs_exists (TestFilesystem False) p w" for p w
    by (simp add: TestFilesystem_def)
  from AutoInstall_missing_answers_file [OF missing, where f = "L ''/no/such/file''"
      and P = "TestPolicy True True False 0 1" and s = sys0]
    AutoInstall_missing_answers_file [OF missing, where f = "L ''/no/such/file''"
      and P = "TestPolicy False True False 0 1" and s = sys0]
    missing
  show ?thesis
    by (simp add: TestPolicy_simps)
qed

text \<open>
  The claim as it was stated fails for a provider that reports the installer
  unavailable: the file is missing and the reason is \<open>E_NOTIMPL\<close>, not \<open>E_FAIL\<close>.
\<close>

theorem AutoInstall_missing_answers_file_counterexample:
  "\<not> fs_exists (TestFilesystem False) (L ''/no/such/file'') ()
   \<and> fst (Closed_on_event_AutoInstall (TestPolicy False True False 0 1) (TestFilesystem False)
            (L ''/no/such/file'') sys0) = UpstreamDefaultInstall E_NOTIMPL
   \<and> UpstreamDefaultInstall E_NOTIMPL \<noteq> UpstreamDefaultInstall E_FAIL"
  by (simp add: Closed_on_event_AutoInstall_def invoke_def TestPolicy_def TestFilesystem_def
      sys0_def E_FAIL_def E_NOTIMPL_def)

text \<open>
  Claim C4. When \<open>AutoInstall\<close> is applied in \<open>Closed\<close> with the installer available
  and an answers file that exists, the handler asks the provider to copy the file to
  \<open>/var/tmp/\<close> followed by the file's name, inside the distribution. If the copy fails the
  state becomes \<open>UpstreamDefaultInstall\<close>; if it succeeds the state becomes
  \<open>AutoInstalling\<close> with the command line \<open>OobeCommand --text --autoinstall\<close> followed
  by the path of the staged copy.
\<close>

theorem AutoInstall_stages_answers_file:
  fixes P :: "'w Policy" and F :: "'w filesystem" and f :: path and s :: "('w, Call) sys"
  defines "w1 \<equiv> snd (is_oobe_available P (world s))"
  defines "destination \<equiv> L ''/var/tmp/'' @ path_filename F f"
  defines "copied \<equiv> fst (copy_file_into_distro P f destination w1)"
  defines "r \<equiv> Closed_on_event_AutoInstall P F f s"
  assumes "fst (is_oobe_available P (world s))" and "fs_exists F f w1"
  shows "take 3 (new_calls s (snd r)) =
           [Call_is_oobe_available, Call_exists f, Call_copy_file_into_distro f destination]
         \<and> world (snd r) = snd (copy_file_into_distro P f destination w1)
         \<and> (\<not> copied \<longrightarrow> fst r = UpstreamDefaultInstall E_FAIL)
         \<and> (copied \<longrightarrow>
              fst r = AutoInstalling (OobeCommand P @ L '' --text '' @ L ''--autoinstall '' @ destination))"
  using assms(5,6) unfolding w1_def destination_def copied_def r_def
  by (simp add: Closed_on_event_AutoInstall_def invoke_def invoke_void_def wprintf_def
      case_prod_beta Let_def new_calls_def)

theorem AutoInstall_stages_answers_file_witness:
  "fst (is_oobe_available (TestPolicy True True False 0 1) (world sys0))
   \<and> fs_exists (TestFilesystem True) (L ''/home/u/answers.yaml'')
        (snd (is_oobe_available (TestPolicy True True False 0 1) (world sys0)))
   \<and> fst (Closed_on_event_AutoInstall (TestPolicy True True False 0 1) (TestFilesystem True)
            (L ''/home/u/answers.yaml'') sys0)
       = AutoInstalling (L ''oobe --text --autoinstall /var/tmp/answers.yaml'')
   \<and> fst (Closed_on_event_AutoInstall (TestPolicy True False False 0 1) (TestFilesystem True)
            (L ''/home/u/answers.yaml'') sys0)
       = UpstreamDefaultInstall E_FAIL"
proof -
  have found: "fs_exists (TestFilesystem True) p w" for p w
    by (simp add: TestFilesystem_def)
  have available: "fst (is_oobe_available (TestPolicy True c False 0 1) (world sys0))" for c
    by (simp add: TestPolicy_def)
  have name: "path_filename (TestFilesystem True) (L ''/home/u/answers.yaml'') = L ''answers.yaml''"
    by (simp add: TestFilesystem_def L_def)
  have cmd: "L ''oobe'' @ L '' --text '' @ L ''--autoinstall '' @ L ''/var/tmp/'' @ L ''answers.yaml''
             = L ''oobe --text --autoinstall /var/tmp/answers.yaml''"
    by (simp add: L_def)
  from AutoInstall_stages_answers_file [OF available found, of True "L ''/home/u/answers.yaml''"]
    AutoInstall_stages_answers_file [OF available found, of False "L ''/home/u/answers.yaml''"]
    available found
  show ?thesis
    by (simp add: name cmd TestPolicy_simps)
qed

subsection \<open>\<open>InteractiveInstall\<close> in \<open>Closed\<close>\<close>

text \<open>
  Claim C5. Applying \<open>InteractiveInstall\<close> in \<open>Closed\<close> falls back to
  \<open>UpstreamDefaultInstall\<close> when the installer is unavailable. Otherwise the command line
  is \<open>OobeCommand\<close> followed by the provider's pre-fill information; if the provider
  reports that text mode is required, \<open>--text\<close> is appended and the state is
  \<open>PreparedTui\<close> with that command line, else the state is \<open>PreparedGui\<close> with it.
\<close>

theorem InteractiveInstall_prepares_command_line:
  fixes P :: "'w Policy" and s :: "('w, Call) sys"
  defines "available \<equiv> fst (is_oobe_available P (world s))"
  defines "w1 \<equiv> snd (is_oobe_available P (world s))"
  defines "prefill \<equiv> fst (prepare_prefill_info P w1)"
  defines "text_mode \<equiv> fst (must_run_in_text_mode P (snd (prepare_prefill_info P w1)))"
  defines "r \<equiv> Closed_on_event_InteractiveInstall P s"
  shows "(\<not> available \<longrightarrow>
            fst r = UpstreamDefaultInstall E_NOTIMPL
            \<and> new_calls s (snd r) = [Call_is_oobe_available])
       \<and> (available \<longrightarrow>
            new_calls s (snd r)
              = [Call_is_oobe_available, Call_prepare_prefill_info, Call_must_run_in_text_mode])
       \<and> (available \<and> text_mode \<longrightarrow>
            fst r = PreparedTui (OobeCommand P @ prefill @ L '' --text'') Text)
       \<and> (available \<and> \<not> text_mode \<longrightarrow>
            fst r = PreparedGui (OobeCommand P @ prefill) Gui)"
  unfolding available_def w1_def prefill_def text_mode_def r_def
  by (simp add: Closed_on_event_InteractiveInstall_def invoke_def case_prod_beta Let_def
      new_calls_def)

theorem InteractiveInstall_prepares_command_line_witness:
  "fst (Closed_on_event_InteractiveInstall (TestPolicy False True True 0 1) sys0)
     = UpstreamDefaultInstall E_NOTIMPL
   \<and> fst (Closed_on_event_InteractiveInstall (TestPolicy True True True 0 1) sys0)
     = PreparedTui (L ''oobe --prefill=u --text'') Text
   \<and> fst (Closed_on_event_InteractiveInstall (TestPolicy True True False 0 1) sys0)
     = PreparedGui (L ''oobe --prefill=u'') Gui
   \<and> new_calls sys0 (snd (Closed_on_event_InteractiveInstall (TestPolicy True True False 0 1) sys0))
     = [Call_is_oobe_available, Call_prepare_prefill_info, Call_must_run_in_text_mode]"
proof -
  have cmd: "L ''oobe'' @ L '' --prefill=u'' @ L '' --text'' = L ''oobe --prefill=u --text''"
    "L ''oobe'' @ L '' --prefill=u'' = L ''oobe --prefill=u''"
    by (simp_all add: L_def)
  from InteractiveInstall_prepares_command_line [of "TestPolicy False True True 0 1" sys0]
    InteractiveInstall_prepares_command_line [of "TestPolicy True True True 0 1" sys0]
    InteractiveInstall_prepares_command_line [of "TestPolicy True True False 0 1" sys0]
  show ?thesis
    by (simp add: TestPolicy_simps cmd)
qed

subsection \<open>\<open>Reconfig\<close> in \<open>Closed\<close>\<close>

text \<open>
  Claim C6. Applying \<open>Reconfig\<close> in \<open>Closed\<close> falls back when the installer is
  unavailable, without launching anything. Otherwise the command line is \<open>OobeCommand\<close>,
  with \<open>--text\<close> appended when text mode is required, and it is launched synchronously,
  the provider reading it as a C string (all of it when \<open>OobeCommand\<close> holds no NUL); the
  world is then the one the launch leaves, and the state is \<open>UpstreamDefaultInstall\<close>
  exactly when the exit code is not zero and \<open>Success\<close> exactly when it is zero.
  \<open>Reconfig\<close> is the only transition out of \<open>Closed\<close> that blocks: the handlers of
  \<open>AutoInstall\<close> and \<open>InteractiveInstall\<close> make no blocking call, and \<open>Closed\<close> has
  no handler for the two other events.
\<close>

theorem Reconfig_launches_synchronously:
  fixes P :: "'w Policy" and F :: "'w filesystem" and s :: "('w, Call) sys"
  defines "available \<equiv> fst (is_oobe_available P (world s))"
  defines "w1 \<equiv> snd (is_oobe_available P (world s))"
  defines "commandLine \<equiv>
    (if fst (must_run_in_text_mode P w1) then OobeCommand P @ L '' --text'' else OobeCommand P)"
  defines "launch \<equiv> do_launch_sync P (c_str commandLine) (snd (must_run_in_text_mode P w1))"
  defines "exitCode \<equiv> fst launch"
  defines "r \<equiv> Closed_on_event_Reconfig P s"
  shows "(\<not> available \<longrightarrow>
            fst r = UpstreamDefaultInstall E_NOTIMPL \<and> filter blocking (new_calls s (snd r)) = []
            \<and> world (snd r) = w1)
       \<and> (available \<longrightarrow>
            filter blocking (new_calls s (snd r)) = [Call_do_launch_sync (c_str commandLine)]
            \<and> (fst r = UpstreamDefaultInstall E_FAIL \<longleftrightarrow> exitCode \<noteq> 0)
            \<and> (fst r = Success \<longleftrightarrow> exitCode = 0)
            \<and> world (snd r) = snd launch)
       \<and> (0 \<notin> set (OobeCommand P) \<longrightarrow> c_str commandLine = commandLine)
       \<and> filter blocking (new_calls s (snd (Closed_on_event_AutoInstall P F f s))) = []
       \<and> filter blocking (new_calls s (snd (Closed_on_event_InteractiveInstall P s))) = []
       \<and> \<not> has_on_event Closed StartInstaller \<and> \<not> has_on_event Closed BlockOnInstaller"
  unfolding available_def w1_def commandLine_def launch_def exitCode_def r_def
  by (simp add: Closed_on_event_Reconfig_def Closed_on_event_AutoInstall_def
      Closed_on_event_InteractiveInstall_def invoke_def invoke_void_def wprintf_def
      case_prod_beta Let_def new_calls_def has_on_event_def c_str_without_NUL c_str_L_text)

theorem Reconfig_launches_synchronously_witness:
  "fst (Closed_on_event_Reconfig (TestPolicy False True True 0 5) sys0) = UpstreamDefaultInstall E_NOTIMPL
   \<and> filter blocking (new_calls sys0 (snd (Closed_on_event_Reconfig (TestPolicy True True True 0 5) sys0)))
       = [Call_do_launch_sync (L ''oobe --text'')]
   \<and> fst (Closed_on_event_Reconfig (TestPolicy True True True 0 5) sys0) = Success
   \<and> fst (Closed_on_event_Reconfig (TestPolicy True True False 3 5) sys0) = UpstreamDefaultInstall E_FAIL"
proof -
  have cmd: "c_str (L ''oobe'' @ L '' --text'') = L ''oobe --text''"
    by (simp add: L_def c_str_def)
  from Reconfig_launches_synchronously [where P = "TestPolicy False True True 0 5" and s = sys0]
    Reconfig_launches_synchronously [where P = "TestPolicy True True True 0 5" and s = sys0]
    Reconfig_launches_synchronously [where P = "TestPolicy True True False 3 5" and s = sys0]
  show ?thesis
    by (simp add: TestPolicy_simps cmd)
qed

subsection \<open>\<open>StartInstaller\<close> in \<open>PreparedTui\<close> and \<open>PreparedGui\<close>\<close>

text \<open>
  Claim C7. Applying \<open>StartInstaller\<close> in \<open>PreparedTui\<close> or \<open>PreparedGui\<close> launches
  the stored command line asynchronously: the handler's one call is the provider's
  \<open>start_installer_async\<close> on the command line, read as a C string (all of it when it
  holds no NUL), and the world is the one that launch leaves. If the provider returns no
  process the state becomes \<open>UpstreamDefaultInstall\<close>; otherwise it becomes \<open>Ready\<close>
  with the process handle and a timeout that depends on the state's \<open>mode\<close>:
  \<open>INFINITE\<close>, which no \<open>DWORD\<close> exceeds, for text mode, and 240000 milliseconds, four
  minutes, for graphical mode. The controller builds \<open>PreparedTui\<close> with the mode
  \<open>Text\<close> and \<open>PreparedGui\<close> with the mode \<open>Gui\<close>.
\<close>

theorem StartInstaller_launches_asynchronously:
  fixes P :: "'w Policy" and s :: "('w, Call) sys" and cli :: wstring and mode :: Mode
  defines "launch \<equiv> start_installer_async P (c_str cli) (world s)"
  defines "oobeProcess \<equiv> fst launch"
  defines "timeoutMs \<equiv> (if mode = Text then INFINITE else 240000)"
  defines "tui \<equiv> PreparedTui_on_event_StartInstaller P cli mode s"
  defines "gui \<equiv> PreparedGui_on_event_StartInstaller P cli mode s"
  shows "new_calls s (snd tui) = [Call_start_installer_async (c_str cli)]
       \<and> new_calls s (snd gui) = [Call_start_installer_async (c_str cli)]
       \<and> world (snd tui) = snd launch \<and> world (snd gui) = snd launch
       \<and> (oobeProcess = nullptr \<longrightarrow>
            fst tui = UpstreamDefaultInstall E_FAIL \<and> fst gui = UpstreamDefaultInstall E_FAIL)
       \<and> (oobeProcess \<noteq> nullptr \<longrightarrow>
            fst tui = Ready oobeProcess timeoutMs \<and> fst gui = Ready oobeProcess timeoutMs
            \<and> fst (PreparedTui_on_event_StartInstaller P cli Text s) = Ready oobeProcess INFINITE
            \<and> fst (PreparedGui_on_event_StartInstaller P cli Gui s) = Ready oobeProcess 240000)
       \<and> (0 \<notin> set cli \<longrightarrow> c_str cli = cli)
       \<and> unat (240000 :: DWORD) = 4 * 60 * 1000
       \<and> (240000 :: DWORD) < INFINITE
       \<and> (\<forall>t :: DWORD. t \<le> INFINITE)"
  unfolding launch_def oobeProcess_def timeoutMs_def tui_def gui_def
  by (simp add: PreparedTui_on_event_StartInstaller_def PreparedGui_on_event_StartInstaller_def
      controller_start_installer_async_def invoke_def case_prod_beta Let_def new_calls_def
      INFINITE_greatest c_str_without_NUL)
    (simp add: INFINITE_def)

text \<open>
  In the witness the fourth command line holds a NUL, as a pre-fill text with a NUL
  would leave it: the provider is handed the part before it.
\<close>

theorem StartInstaller_launches_asynchronously_witness:
  "fst (PreparedTui_on_event_StartInstaller (TestPolicy True True True 0 nullptr) (L ''oobe --text'') Text sys0)
     = UpstreamDefaultInstall E_FAIL
   \<and> fst (PreparedGui_on_event_StartInstaller (TestPolicy True True False 0 nullptr) (L ''oobe'') Gui sys0)
     = UpstreamDefaultInstall E_FAIL
   \<and> fst (PreparedTui_on_event_StartInstaller (TestPolicy True True True 0 5) (L ''oobe --text'') Text sys0)
     = Ready 5 INFINITE
   \<and> fst (PreparedGui_on_event_StartInstaller (TestPolicy True True False 0 5) (L ''oobe'') Gui sys0)
     = Ready 5 240000
   \<and> new_calls sys0
        (snd (PreparedGui_on_event_StartInstaller (TestPolicy True True False 0 5) (L ''oobe'') Gui sys0))
     = [Call_start_installer_async (L ''oobe'')]
   \<and> new_calls sys0
        (snd (PreparedGui_on_event_StartInstaller (TestPolicy True True False 0 5)
           (L ''oobe'' @ [0] @ L ''x'') Gui sys0))
     = [Call_start_installer_async (L ''oobe'')]"
proof -
  have h: "(5 :: HANDLE) \<noteq> nullptr"
    by (simp add: nullptr_def)
  have cut: "c_str (L ''oobe'' @ 0 # L ''x'') = L ''oobe''" "c_str (L ''oobe'') = L ''oobe''"
    by (simp_all add: c_str_def L_def)
  from StartInstaller_launches_asynchronously [where P = "TestPolicy True True True 0 nullptr"
      and s = sys0 and cli = "L ''oobe --text''" and mode = Text]
    StartInstaller_launches_asynchronously [where P = "TestPolicy True True False 0 nullptr"
      and s = sys0 and cli = "L ''oobe''" and mode = Gui]
    StartInstaller_launches_asynchronously [where P = "TestPolicy True True True 0 5"
      and s = sys0 and cli = "L ''oobe --text''" and mode = Text]
    StartInstaller_launches_asynchronously [where P = "TestPolicy True True False 0 5"
      and s = sys0 and cli = "L ''oobe''" and mode = Gui]
    StartInstaller_launches_asynchronously [where P = "TestPolicy True True False 0 5"
      and s = sys0 and cli = "L ''oobe'' @ [0] @ L ''x''" and mode = Gui]
    h
  show ?thesis
    by (simp add: TestPolicy_simps cut)
qed

subsection \<open>\<open>BlockOnInstaller\<close> in \<open>AutoInstalling\<close> and \<open>Ready\<close>\<close>

text \<open>
  Claim C8. Applying \<open>BlockOnInstaller\<close> in \<open>AutoInstalling\<close> launches the stored
  command line synchronously, the provider reading it as a C string (all of it when it
  holds no NUL). In \<open>Ready\<close> it hands the stored process handle and the stored timeout
  to \<open>consume_process\<close>, once, and goes on from the world in which the provider has
  consumed the handle, on the failure path as on the success path. In both states an
  outcome that is not zero gives \<open>UpstreamDefaultInstall\<close>, and the outcome zero is
  followed by \<open>handle_exit_status\<close> and gives \<open>Success\<close>. Whether a wait expires is for
  the provider to tell: \<open>expired\<close> stands for the waits that run out, and for a provider
  that reports them by a code other than zero, a wait that expires gives
  \<open>UpstreamDefaultInstall\<close>, never \<open>Success\<close>.
\<close>

theorem BlockOnInstaller_outcome:
  fixes P :: "'w Policy" and s :: "('w, Call) sys" and cli :: wstring
    and oobeProcess :: HANDLE and timeout :: DWORD
    and expired :: "HANDLE \<Rightarrow> DWORD \<Rightarrow> 'w \<Rightarrow> bool"
  defines "launched \<equiv> do_launch_sync P (c_str cli) (world s)"
  defines "waited \<equiv> consume_process P oobeProcess timeout (world s)"
  defines "a \<equiv> AutoInstalling_on_event_BlockOnInstaller P cli s"
  defines "r \<equiv> Ready_on_event_BlockOnInstaller P oobeProcess timeout s"
  assumes reported: "\<And>h t w. expired h t w \<Longrightarrow> fst (consume_process P h t w) \<noteq> 0"
  shows "(fst launched \<noteq> 0 \<longrightarrow>
            fst a = UpstreamDefaultInstall E_FAIL
            \<and> new_calls s (snd a) = [Call_do_launch_sync (c_str cli)]
            \<and> world (snd a) = snd launched)
       \<and> (fst launched = 0 \<longrightarrow>
            fst a = Success
            \<and> new_calls s (snd a) = [Call_do_launch_sync (c_str cli), Call_handle_exit_status]
            \<and> world (snd a) = handle_exit_status P (snd launched))
       \<and> (fst waited \<noteq> 0 \<longrightarrow>
            fst r = UpstreamDefaultInstall E_FAIL
            \<and> new_calls s (snd r) = [Call_consume_process oobeProcess timeout]
            \<and> world (snd r) = snd waited)
       \<and> (fst waited = 0 \<longrightarrow>
            fst r = Success
            \<and> new_calls s (snd r) = [Call_consume_process oobeProcess timeout, Call_handle_exit_status]
            \<and> world (snd r) = handle_exit_status P (snd waited))
       \<and> (expired oobeProcess timeout (world s) \<longrightarrow>
            fst r = UpstreamDefaultInstall E_FAIL \<and> fst r \<noteq> Success
            \<and> new_calls s (snd r) = [Call_consume_process oobeProcess timeout]
            \<and> world (snd r) = snd waited)
       \<and> (0 \<notin> set cli \<longrightarrow> c_str cli = cli)
       \<and> (fst a = Success \<longleftrightarrow> fst launched = 0) \<and> (fst r = Success \<longleftrightarrow> fst waited = 0)"
proof -
  have outcome: "(fst launched \<noteq> 0 \<longrightarrow>
            fst a = UpstreamDefaultInstall E_FAIL
            \<and> new_calls s (snd a) = [Call_do_launch_sync (c_str cli)]
            \<and> world (snd a) = snd launched)
       \<and> (fst launched = 0 \<longrightarrow>
            fst a = Success
            \<and> new_calls s (snd a) = [Call_do_launch_sync (c_str cli), Call_handle_exit_status]
            \<and> world (snd a) = handle_exit_status P (snd launched))
       \<and> (fst waited \<noteq> 0 \<longrightarrow>
            fst r = UpstreamDefaultInstall E_FAIL
            \<and> new_calls s (snd r) = [Call_consume_process oobeProcess timeout]
            \<and> world (snd r) = snd waited)
       \<and> (fst waited = 0 \<longrightarrow>
            fst r = Success
            \<and> new_calls s (snd r) = [Call_consume_process oobeProcess timeout, Call_handle_exit_status]
            \<and> world (snd r) = handle_exit_status P (snd waited))
       \<and> (0 \<notin> set cli \<longrightarrow> c_str cli = cli)
       \<and> (fst a = Success \<longleftrightarrow> fst launched = 0) \<and> (fst r = Success \<longleftrightarrow> fst waited = 0)"
    unfolding launched_def waited_def a_def r_def
    by (simp add: AutoInstalling_on_event_BlockOnInstaller_def Ready_on_event_BlockOnInstaller_def
        invoke_def invoke_void_def case_prod_beta new_calls_def c_str_without_NUL)
  have "fst r = UpstreamDefaultInstall E_FAIL \<and> fst r \<noteq> Success
      \<and> new_calls s (snd r) = [Call_consume_process oobeProcess timeout]
      \<and> world (snd r) = snd waited"
    if "expired oobeProcess timeout (world s)"
  proof -
    from that have "fst waited \<noteq> 0"
      unfolding waited_def by (rule reported)
    with outcome show ?thesis
      by simp
  qed
  with outcome show ?thesis
    by simp
qed

text \<open>
  In the witness the installer behind the handle 5 runs five more minutes. A wait of four
  minutes expires: the state is \<open>UpstreamDefaultInstall\<close> and the handle is closed. A
  wait without limit ends with the exit code 0: the state is \<open>Success\<close> and the handle
  is closed.
\<close>

theorem BlockOnInstaller_outcome_witness:
  "fst (AutoInstalling_on_event_BlockOnInstaller (TestPolicy True True True 1 5) (L ''oobe'') sys0)
     = UpstreamDefaultInstall E_FAIL
   \<and> fst (AutoInstalling_on_event_BlockOnInstaller (TestPolicy True True True 0 5) (L ''oobe'') sys0)
     = Success
   \<and> new_calls sys0
        (snd (AutoInstalling_on_event_BlockOnInstaller (TestPolicy True True True 0 5)
           (L ''oobe'' @ [0] @ L ''x'') sys0))
     = [Call_do_launch_sync (L ''oobe''), Call_handle_exit_status]
   \<and> expires 5 240000 (world slow_installer)
   \<and> fst (Ready_on_event_BlockOnInstaller WaitingPolicy 5 240000 slow_installer)
     = UpstreamDefaultInstall E_FAIL
   \<and> new_calls slow_installer (snd (Ready_on_event_BlockOnInstaller WaitingPolicy 5 240000 slow_installer))
     = [Call_consume_process 5 240000]
   \<and> world (snd (Ready_on_event_BlockOnInstaller WaitingPolicy 5 240000 slow_installer)) 5 = None
   \<and> fst (Ready_on_event_BlockOnInstaller WaitingPolicy 5 INFINITE slow_installer) = Success
   \<and> new_calls slow_installer (snd (Ready_on_event_BlockOnInstaller WaitingPolicy 5 INFINITE slow_installer))
     = [Call_consume_process 5 INFINITE, Call_handle_exit_status]
   \<and> world (snd (Ready_on_event_BlockOnInstaller WaitingPolicy 5 INFINITE slow_installer)) 5 = None"
proof -
  have never: "False \<Longrightarrow> fst (consume_process (TestPolicy True True True e 5) h t w) \<noteq> 0" for e h t w
    by simp
  have cut: "c_str (L ''oobe'' @ 0 # L ''x'') = L ''oobe''"
    by (simp add: c_str_def L_def)
  have slow: "expires 5 240000 (world slow_installer)"
    "\<not> expires 5 INFINITE (world slow_installer)"
    by (simp_all add: expires_def slow_installer_def INFINITE_def)
  have wait: "consume_process WaitingPolicy 5 t (world slow_installer)
      = (if expires 5 t (world slow_installer) then WAIT_TIMEOUT else 0, (\<lambda>h. None))" for t
    by (auto simp add: WaitingPolicy_def slow_installer_def)
  have status: "handle_exit_status WaitingPolicy w = w" for w
    by (simp add: WaitingPolicy_def)
  from BlockOnInstaller_outcome [where P = "TestPolicy True True True 1 5" and s = sys0
      and cli = "L ''oobe''" and expired = "\<lambda>h t w. False", OF never]
    BlockOnInstaller_outcome [where P = "TestPolicy True True True 0 5" and s = sys0
      and cli = "L ''oobe''" and expired = "\<lambda>h t w. False", OF never]
    BlockOnInstaller_outcome [where P = "TestPolicy True True True 0 5" and s = sys0
      and cli = "L ''oobe'' @ [0] @ L ''x''" and expired = "\<lambda>h t w. False", OF never]
    BlockOnInstaller_outcome [where P = WaitingPolicy and s = slow_installer and expired = expires
      and oobeProcess = 5 and timeout = 240000, OF WaitingPolicy_reports_expiry]
    BlockOnInstaller_outcome [where P = WaitingPolicy and s = slow_installer and expired = expires
      and oobeProcess = 5 and timeout = INFINITE, OF WaitingPolicy_reports_expiry]
    slow
  show ?thesis
    by (simp add: TestPolicy_simps cut wait status WAIT_TIMEOUT_def)
qed

subsection \<open>\<open>Run\<close> in the splash controller\<close>

text \<open>
  Claim C9. The splash controller's \<open>Run\<close> changes the state only in \<open>Idle\<close>: in any
  other state it is rejected. In \<open>Idle\<close>, if the process cannot be created, or if the
  window of the created process is not found by its thread id, the event is rejected and
  the state stays \<open>Idle\<close>; only when both calls succeed does the controller show the
  window and become \<open>Visible\<close>. After a \<open>Run\<close> that was accepted, whatever events
  follow, the state is never \<open>Idle\<close> again and a further \<open>Run\<close> is rejected.
\<close>

theorem Run_accepted_only_in_Idle:
  fixes S :: "'w Strategy" and y :: "('w, SplashCall) sys" and target :: path
  defines "created \<equiv> fst (fst (do_create_process S target (world y)))"
  defines "threadId \<equiv> snd (fst (do_create_process S target (world y)))"
  defines "window \<equiv>
    fst (do_find_window_by_thread_id S threadId (snd (do_create_process S target (world y))))"
  defines "r \<equiv> addEvent (Splash_on_event S) (Run target) (Idle, y)"
  shows "(state \<noteq> Idle \<longrightarrow>
            addEvent (Splash_on_event S) (Run target) (state, y) = (None, (state, y)))
       \<and> (\<not> created \<longrightarrow>
            fst r = None \<and> fst (snd r) = Idle
            \<and> new_calls y (snd (snd r)) = [Call_do_create_process target])
       \<and> (created \<and> window = nullptr \<longrightarrow>
            fst r = None \<and> fst (snd r) = Idle
            \<and> new_calls y (snd (snd r))
                = [Call_do_create_process target, Call_do_find_window_by_thread_id threadId])
       \<and> (created \<and> window \<noteq> nullptr \<longrightarrow>
            fst r = Some (Visible window) \<and> fst (snd r) = Visible window
            \<and> new_calls y (snd (snd r))
                = [Call_do_create_process target, Call_do_find_window_by_thread_id threadId,
                   Call_do_show_window window])
       \<and> (fst r \<noteq> None \<longrightarrow>
            fst (addEvents (Splash_on_event S) events (snd r)) \<noteq> Idle
            \<and> addEvent (Splash_on_event S) (Run target') (addEvents (Splash_on_event S) events (snd r))
                = (None, addEvents (Splash_on_event S) events (snd r)))"
proof -
  have outside: "addEvent (Splash_on_event S) (Run target) (state, y) = (None, (state, y))"
    if "state \<noteq> Idle"
    using that by (simp add: addEvent_rejected Splash_Run_outside_Idle)
  have inside: "Splash_on_event S Idle (Run target) y = Idle_on_event_Run S target y"
    by (simp add: Splash_on_event_def)
  have failed: "fst r = None \<and> fst (snd r) = Idle
      \<and> new_calls y (snd (snd r)) = [Call_do_create_process target]"
    if "\<not> created"
    using that unfolding r_def created_def
    by (simp add: addEvent_def inside Idle_on_event_Run_def invoke_def case_prod_beta new_calls_def)
  have lost: "fst r = None \<and> fst (snd r) = Idle
      \<and> new_calls y (snd (snd r))
          = [Call_do_create_process target, Call_do_find_window_by_thread_id threadId]"
    if "created \<and> window = nullptr"
    using that unfolding r_def created_def window_def threadId_def
    by (simp add: addEvent_def inside Idle_on_event_Run_def invoke_def case_prod_beta new_calls_def)
  have shown: "fst r = Some (Visible window) \<and> fst (snd r) = Visible window
      \<and> new_calls y (snd (snd r))
          = [Call_do_create_process target, Call_do_find_window_by_thread_id threadId,
             Call_do_show_window window]"
    if "created \<and> window \<noteq> nullptr"
    using that unfolding r_def created_def window_def threadId_def
    by (simp add: addEvent_def inside Idle_on_event_Run_def invoke_def case_prod_beta new_calls_def)
  have after: "fst (addEvents (Splash_on_event S) events (snd r)) \<noteq> Idle
      \<and> addEvent (Splash_on_event S) (Run target') (addEvents (Splash_on_event S) events (snd r))
          = (None, addEvents (Splash_on_event S) events (snd r))"
    if "fst r \<noteq> None"
  proof -
    have "created \<and> window \<noteq> nullptr"
    proof (rule ccontr)
      assume "\<not> (created \<and> window \<noteq> nullptr)"
      then have "\<not> created \<or> (created \<and> window = nullptr)"
        by simp
      with failed lost have "fst r = None"
        by (elim disjE) simp_all
      with that show False
        by simp
    qed
    with shown have "fst (snd r) \<noteq> Idle"
      by simp
    then have away: "fst (addEvents (Splash_on_event S) events (snd r)) \<noteq> Idle"
      by (rule Splash_never_back_to_Idle)
    then have "Splash_on_event S (fst (addEvents (Splash_on_event S) events (snd r))) (Run target')
        (snd (addEvents (Splash_on_event S) events (snd r)))
        = (None, snd (addEvents (Splash_on_event S) events (snd r)))"
      by (rule Splash_Run_outside_Idle)
    then have "addEvent (Splash_on_event S) (Run target') (addEvents (Splash_on_event S) events (snd r))
        = (None, addEvents (Splash_on_event S) events (snd r))"
      by (rule addEvent_rejected)
    with away show ?thesis
      by simp
  qed
  from outside failed lost shown after show ?thesis
    by blast
qed

theorem Run_accepted_only_in_Idle_witness:
  "fst (addEvent (Splash_on_event NothingWorksStrategy) (Run (L ''./do_not_exists'')) (Idle, sys0)) = None
   \<and> fst (snd (addEvent (Splash_on_event NothingWorksStrategy) (Run (L ''./do_not_exists'')) (Idle, sys0)))
       = Idle
   \<and> fst (addEvent (Splash_on_event CantFindWindowStrategy) (Run (L ''cmd.exe'')) (Idle, sys0)) = None
   \<and> fst (snd (addEvent (Splash_on_event CantFindWindowStrategy) (Run (L ''cmd.exe'')) (Idle, sys0)))
       = Idle
   \<and> fst (addEvent (Splash_on_event (EverythingWorksStrategy 7)) (Run (L ''./do_not_exists'')) (Idle, sys0))
       = Some (Visible 7)
   \<and> new_calls sys0
       (snd (snd (addEvent (Splash_on_event (EverythingWorksStrategy 7)) (Run (L ''./do_not_exists''))
          (Idle, sys0))))
       = [Call_do_create_process (L ''./do_not_exists''), Call_do_find_window_by_thread_id 0,
          Call_do_show_window 7]
   \<and> addEvent (Splash_on_event (EverythingWorksStrategy 7)) (Run (L ''./do_not_exists''))
       (addEvents (Splash_on_event (EverythingWorksStrategy 7)) [ToggleVisibility, Close]
          (snd (addEvent (Splash_on_event (EverythingWorksStrategy 7)) (Run (L ''./do_not_exists''))
             (Idle, sys0))))
       = (None, addEvents (Splash_on_event (EverythingWorksStrategy 7)) [ToggleVisibility, Close]
          (snd (addEvent (Splash_on_event (EverythingWorksStrategy 7)) (Run (L ''./do_not_exists''))
             (Idle, sys0))))
   \<and> addEvent (Splash_on_event (EverythingWorksStrategy 7)) (Run (L ''./do_not_exists'')) (Hidden 7, sys0)
       = (None, (Hidden 7, sys0))"
proof -
  have h: "(7 :: HWND) \<noteq> nullptr"
    by (simp add: nullptr_def)
  from Run_accepted_only_in_Idle [where S = NothingWorksStrategy and y = sys0 and target = "L ''./do_not_exists''"
      and state = Idle]
    Run_accepted_only_in_Idle [where S = CantFindWindowStrategy and y = sys0 and target = "L ''cmd.exe''" and state = Idle]
    Run_accepted_only_in_Idle [where S = "EverythingWorksStrategy 7" and y = sys0 and target = "L ''./do_not_exists''"
      and target' = "L ''./do_not_exists''" and state = "Hidden 7"
      and events = "[ToggleVisibility, Close]"]
    h
  show ?thesis
    by (simp add: Strategy_simps)
qed

subsection \<open>Exit-status handling\<close>

text \<open>
  Claim C10. When the exit code is zero, \<open>Reconfig\<close> in \<open>Closed\<close> reaches \<open>Success\<close>
  without calling \<open>handle_exit_status\<close>, whereas \<open>BlockOnInstaller\<close> in
  \<open>AutoInstalling\<close> and in \<open>Ready\<close> each call it exactly once, as their last call,
  before they reach \<open>Success\<close>.
\<close>

theorem exit_status_handling_calls:
  fixes P :: "'w Policy" and s :: "('w, Call) sys" and cli :: wstring
    and oobeProcess :: HANDLE and timeout :: DWORD
  defines "w1 \<equiv> snd (is_oobe_available P (world s))"
  defines "commandLine \<equiv>
    (if fst (must_run_in_text_mode P w1) then OobeCommand P @ L '' --text'' else OobeCommand P)"
  defines "reconfigured \<equiv> do_launch_sync P (c_str commandLine) (snd (must_run_in_text_mode P w1))"
  defines "launched \<equiv> do_launch_sync P (c_str cli) (world s)"
  defines "waited \<equiv> consume_process P oobeProcess timeout (world s)"
  defines "c \<equiv> Closed_on_event_Reconfig P s"
  defines "a \<equiv> AutoInstalling_on_event_BlockOnInstaller P cli s"
  defines "r \<equiv> Ready_on_event_BlockOnInstaller P oobeProcess timeout s"
  shows "(fst (is_oobe_available P (world s)) \<and> fst reconfigured = 0 \<longrightarrow>
            fst c = Success
            \<and> count_list (new_calls s (snd c)) Call_handle_exit_status = 0
            \<and> world (snd c) = snd reconfigured)
       \<and> (fst launched = 0 \<longrightarrow>
            fst a = Success
            \<and> count_list (new_calls s (snd a)) Call_handle_exit_status = 1
            \<and> last (new_calls s (snd a)) = Call_handle_exit_status
            \<and> world (snd a) = handle_exit_status P (snd launched))
       \<and> (fst waited = 0 \<longrightarrow>
            fst r = Success
            \<and> count_list (new_calls s (snd r)) Call_handle_exit_status = 1
            \<and> last (new_calls s (snd r)) = Call_handle_exit_status
            \<and> world (snd r) = handle_exit_status P (snd waited))"
  unfolding w1_def commandLine_def reconfigured_def launched_def waited_def c_def a_def r_def
  by (simp add: Closed_on_event_Reconfig_def AutoInstalling_on_event_BlockOnInstaller_def
      Ready_on_event_BlockOnInstaller_def invoke_def invoke_void_def case_prod_beta Let_def
      new_calls_def)

theorem exit_status_handling_calls_witness:
  "fst (Closed_on_event_Reconfig (TestPolicy True True False 0 5) sys0) = Success
   \<and> count_list (new_calls sys0 (snd (Closed_on_event_Reconfig (TestPolicy True True False 0 5) sys0)))
       Call_handle_exit_status = 0
   \<and> fst (AutoInstalling_on_event_BlockOnInstaller (TestPolicy True True False 0 5) (L ''oobe'') sys0)
       = Success
   \<and> count_list (new_calls sys0
        (snd (AutoInstalling_on_event_BlockOnInstaller (TestPolicy True True False 0 5) (L ''oobe'') sys0)))
       Call_handle_exit_status = 1
   \<and> fst (Ready_on_event_BlockOnInstaller (TestPolicy True True False 0 5) 5 240000 sys0) = Success
   \<and> count_list (new_calls sys0
        (snd (Ready_on_event_BlockOnInstaller (TestPolicy True True False 0 5) 5 240000 sys0)))
       Call_handle_exit_status = 1"
proof -
  from exit_status_handling_calls [where P = "TestPolicy True True False 0 5" and s = sys0 and cli = "L ''oobe''"
      and oobeProcess = 5 and timeout = 240000]
  show ?thesis
    by (simp add: TestPolicy_simps)
qed

end
